theory Spec2Isabelle
  imports Complex_Main "HOL-Library.Word"
begin

section \<open>The video generation module\<close>

text \<open>
  The module under study declares four asynchronous functions: \<open>processAudio\<close>,
  \<open>generateVideo\<close>, \<open>createThumbnail\<close> and \<open>generateEnhancedThumbnail\<close>. Each one
  is a \<open>try\<close>/\<open>catch\<close> around a straight line of awaited operations on the file system,
  on the clock and on collaborators that are not part of the module: \<open>createVisualizer\<close>
  of \<open>./visualizer\<close> and the \<open>fluent-ffmpeg\<close> command builder. The model threads an
  explicit world (the files of the scratch directory and the number of clock readings
  taken so far) through every operation and takes the collaborators as fields of an
  environment record.

  \<open>processAudio\<close> is not given a definition. The module imports a \<open>processAudio\<close> from
  \<open>./audioProcessor\<close> (line 51) and declares its exported wrapper under the same name
  (line 62), and the wrapper's call at line 70 uses that name again: the name is
  declared twice in one scope, so the text does not fix which function the module's
  \<open>processAudio\<close> is, nor what line 70 calls.
\<close>

subsection \<open>Values\<close>

text \<open>A Node \<open>Buffer\<close> is a sequence of bytes.\<close>

type_synonym buffer = "8 word list"

text \<open>A thrown JavaScript \<open>Error\<close> object: its \<open>name\<close> (the kind) and its \<open>message\<close>.\<close>

datatype js_error = Error (err_name: string) (message: string)

text \<open>
  An awaited promise either resolves with a value, rejects with an error (which \<open>await\<close>
  rethrows), or stays pending for ever.
\<close>

datatype 'a completion = Resolved 'a | Rejected js_error | Pending

record world =
  files :: "string \<rightharpoonup> buffer"
  reads :: nat

type_synonym 'a io = "world \<Rightarrow> 'a completion \<times> world"

definition io_return :: "'a \<Rightarrow> 'a io" where
  "io_return x w = (Resolved x, w)"

definition io_bind :: "'a io \<Rightarrow> ('a \<Rightarrow> 'b io) \<Rightarrow> 'b io" where
  "io_bind m f w =
     (case m w of
        (Resolved x, w') \<Rightarrow> f x w'
      | (Rejected e, w') \<Rightarrow> (Rejected e, w')
      | (Pending, w') \<Rightarrow> (Pending, w'))"

text \<open>
  The analysis object that \<open>generateVideo\<close> passes on to the visualizer: the four
  properties \<open>bpm\<close>, \<open>beats\<close>, \<open>duration\<close> and \<open>waveform\<close>. The module does no
  arithmetic on them.
\<close>

record analysis =
  bpm :: rat
  beats :: "rat list"
  duration :: rat
  waveform :: "rat list"

text \<open>The \<open>effects\<close> object: effect names with their settings, in key order.\<close>

type_synonym effects = "(string \<times> bool) list"

text \<open>
  The object every exported function returns: \<open>{ success: true, <payload> }\<close> or
  \<open>{ success: false, error: <message> }\<close>. A property that the object literal does
  not have is \<open>None\<close>.
\<close>

record 'a outcome =
  success :: bool
  payload :: "'a option"
  error :: "string option"

text \<open>
  The \<open>fluent-ffmpeg\<close> command of \<open>generateVideo\<close> (lines 113 to 125) and the
  \<open>screenshots\<close> request of \<open>createThumbnail\<close> (lines 162 to 168), as the data the
  builder receives.
\<close>

record ffmpeg_command =
  inputs :: "string list"
  outputOptions :: "string list"
  output_file :: string

record screenshots_config =
  timestamps :: "string list"
  filename :: string
  folder :: string
  shot_size :: string

subsection \<open>The environment\<close>

text \<open>
  \<open>tmpdir\<close> is \<open>os.tmpdir()\<close>; \<open>now_at k\<close> is what the \<open>k\<close>-th call of \<open>Date.now()\<close>
  returns; \<open>write_fails\<close> says for which paths \<open>fs.writeFile\<close> rejects.
  \<open>ffmpeg_run\<close> is the outcome of running a command: the \<open>end\<close> event resolves, the
  \<open>error\<close> event rejects, and a process that emits neither leaves the promise pending;
  \<open>ffmpeg_screenshots\<close> likewise for a \<open>screenshots\<close> request on an input file.
\<close>

record env =
  tmpdir :: string
  now_at :: "nat \<Rightarrow> nat"
  write_fails :: "string \<Rightarrow> bool"
  createVisualizer :: "analysis \<Rightarrow> buffer list \<Rightarrow> effects \<Rightarrow> string \<Rightarrow> string \<Rightarrow> string io"
  ffmpeg_run :: "ffmpeg_command \<Rightarrow> unit io"
  ffmpeg_screenshots :: "string \<Rightarrow> screenshots_config \<Rightarrow> unit io"

subsection \<open>Clock, paths and the file system\<close>

definition Date_now :: "env \<Rightarrow> nat io" where
  "Date_now e w = (Resolved (now_at e (reads w)), w\<lparr>reads := Suc (reads w)\<rparr>)"

text \<open>The decimal rendering of a number inside a template string.\<close>

definition digit_char :: "nat \<Rightarrow> char" where
  "digit_char d = ''0123456789'' ! d"

fun show_nat :: "nat \<Rightarrow> string" where
  "show_nat n = (if n < 10 then [digit_char n]
                 else show_nat (n div 10) @ [digit_char (n mod 10)])"

declare show_nat.simps [simp del]

text \<open>
  \<open>path.join\<close>, \<open>path.basename\<close> and \<open>path.dirname\<close> on a normalised directory and a
  plain file name.
\<close>

definition path_join :: "string \<Rightarrow> string \<Rightarrow> string" where
  "path_join d n =
     (if d = [] \<or> d = ''.'' then n
      else if d = ''/'' then ''/'' @ n
      else d @ ''/'' @ n)"

definition path_basename :: "string \<Rightarrow> string" where
  "path_basename p = rev (takeWhile (\<lambda>c. c \<noteq> CHR ''/'') (rev p))"

definition path_dirname :: "string \<Rightarrow> string" where
  "path_dirname p =
     (if CHR ''/'' \<notin> set p then ''.''
      else let d = rev (drop 1 (dropWhile (\<lambda>c. c \<noteq> CHR ''/'') (rev p)))
           in if d = [] then ''/'' else d)"

definition fs_writeFile :: "env \<Rightarrow> string \<Rightarrow> buffer \<Rightarrow> unit io" where
  "fs_writeFile e p b w =
     (if write_fails e p
      then (Rejected (Error ''Error'' (''EACCES: permission denied, open '' @ p)), w)
      else (Resolved (), w\<lparr>files := (files w)(p \<mapsto> b)\<rparr>))"

definition fs_readFile :: "string \<Rightarrow> buffer io" where
  "fs_readFile p w =
     (case files w p of
        None \<Rightarrow> (Rejected (Error ''Error'' (''ENOENT: no such file or directory, open '' @ p)), w)
      | Some b \<Rightarrow> (Resolved b, w))"

definition fs_unlink :: "string \<Rightarrow> unit io" where
  "fs_unlink p w =
     (case files w p of
        None \<Rightarrow> (Rejected (Error ''Error'' (''ENOENT: no such file or directory, unlink '' @ p)), w)
      | Some b \<Rightarrow> (Resolved (), w\<lparr>files := (files w)(p := None)\<rparr>))"

subsection \<open>The exported functions\<close>

text \<open>
  \<open>try { ... return { success: true, ... } } catch (error) { return { success: false,
  error: error.message } }\<close>: the shape shared by the functions. The message
  logged by \<open>console.error\<close> is not part of the model.
\<close>

definition try_catch :: "'a io \<Rightarrow> 'a outcome io" where
  "try_catch body w =
     (case body w of
        (Resolved x, w') \<Rightarrow>
          (Resolved \<lparr>success = True, payload = Some x, error = None\<rparr>, w')
      | (Rejected e, w') \<Rightarrow>
          (Resolved \<lparr>success = False, payload = None, error = Some (message e)\<rparr>, w')
      | (Pending, w') \<Rightarrow> (Pending, w'))"

text \<open>
  \<open>generateVideo\<close>, lines 92 to 147, in the four stretches that its \<open>await\<close>s delimit:
  saving the audio (lines 95 to 97), naming the output and rendering the visualizer
  (lines 100 to 109), running the encoder (lines 112 to 126), and reading the video
  and deleting the three files (lines 129 to 139). \<open>generateVideo_resume\<close> is what
  remains to run once the audio is saved.
\<close>

definition generateVideo_save :: "env \<Rightarrow> buffer \<Rightarrow> string io" where
  "generateVideo_save e audioBuffer =
     io_bind (Date_now e) (\<lambda>t.
       let tempDir = tmpdir e;
           audioPath = path_join tempDir (''audio-'' @ show_nat t @ ''.mp3'')
       in io_bind (fs_writeFile e audioPath audioBuffer) (\<lambda>_. io_return audioPath))"

definition generateVideo_render ::
  "env \<Rightarrow> analysis \<Rightarrow> buffer list \<Rightarrow> effects \<Rightarrow> string \<Rightarrow> (string \<times> string) io" where
  "generateVideo_render e audioAnalysis imageFiles effects title =
     io_bind (Date_now e) (\<lambda>t.
       let tempDir = tmpdir e;
           outputPath = path_join tempDir (''video-'' @ show_nat t @ ''.mp4'')
       in io_bind (createVisualizer e audioAnalysis imageFiles effects title tempDir)
            (\<lambda>visualizerPath. io_return (outputPath, visualizerPath)))"

definition generateVideo_encode :: "env \<Rightarrow> string \<Rightarrow> string \<Rightarrow> string \<Rightarrow> unit io" where
  "generateVideo_encode e visualizerPath audioPath outputPath =
     ffmpeg_run e
       \<lparr>inputs = [visualizerPath, audioPath],
        outputOptions = [''-c:v libx264'', ''-pix_fmt yuv420p'', ''-c:a aac'', ''-shortest''],
        output_file = outputPath\<rparr>"

definition generateVideo_collect :: "string \<Rightarrow> string \<Rightarrow> string \<Rightarrow> buffer io" where
  "generateVideo_collect visualizerPath audioPath outputPath =
     io_bind (fs_readFile outputPath) (\<lambda>videoBuffer.
     io_bind (fs_unlink audioPath) (\<lambda>_.
     io_bind (fs_unlink visualizerPath) (\<lambda>_.
     io_bind (fs_unlink outputPath) (\<lambda>_.
     io_return videoBuffer))))"

definition generateVideo_resume ::
  "env \<Rightarrow> string \<Rightarrow> analysis \<Rightarrow> buffer list \<Rightarrow> effects \<Rightarrow> string \<Rightarrow> buffer io" where
  "generateVideo_resume e audioPath audioAnalysis imageFiles effects title =
     io_bind (generateVideo_render e audioAnalysis imageFiles effects title)
       (\<lambda>(outputPath, visualizerPath).
     io_bind (generateVideo_encode e visualizerPath audioPath outputPath) (\<lambda>_.
     generateVideo_collect visualizerPath audioPath outputPath))"

definition generateVideo_try ::
  "env \<Rightarrow> buffer \<Rightarrow> analysis \<Rightarrow> buffer list \<Rightarrow> effects \<Rightarrow> string \<Rightarrow> buffer io" where
  "generateVideo_try e audioBuffer audioAnalysis imageFiles effects title =
     io_bind (generateVideo_save e audioBuffer) (\<lambda>audioPath.
     generateVideo_resume e audioPath audioAnalysis imageFiles effects title)"

definition generateVideo ::
  "env \<Rightarrow> buffer \<Rightarrow> analysis \<Rightarrow> buffer list \<Rightarrow> effects \<Rightarrow> string \<Rightarrow> buffer outcome io" where
  "generateVideo e audioBuffer audioAnalysis imageFiles effects title =
     try_catch (generateVideo_try e audioBuffer audioAnalysis imageFiles effects title)"

text \<open>\<open>createThumbnail\<close>, lines 150 to 191.\<close>

definition createThumbnail_try :: "env \<Rightarrow> buffer \<Rightarrow> buffer io" where
  "createThumbnail_try e videoBuffer =
     io_bind (Date_now e) (\<lambda>t1.
       let tempDir = tmpdir e;
           videoPath = path_join tempDir (''video-'' @ show_nat t1 @ ''.mp4'')
       in io_bind (fs_writeFile e videoPath videoBuffer) (\<lambda>_.
          io_bind (Date_now e) (\<lambda>t2.
            let thumbnailPath = path_join tempDir (''thumbnail-'' @ show_nat t2 @ ''.jpg'')
            in io_bind (ffmpeg_screenshots e videoPath
                          \<lparr>timestamps = [''50%''],
                           filename = path_basename thumbnailPath,
                           folder = path_dirname thumbnailPath,
                           shot_size = ''1280x720''\<rparr>) (\<lambda>_.
               io_bind (fs_readFile thumbnailPath) (\<lambda>thumbnailBuffer.
               io_bind (fs_unlink videoPath) (\<lambda>_.
               io_bind (fs_unlink thumbnailPath) (\<lambda>_.
               io_return thumbnailBuffer)))))))"

definition createThumbnail :: "env \<Rightarrow> buffer \<Rightarrow> buffer outcome io" where
  "createThumbnail e videoBuffer = try_catch (createThumbnail_try e videoBuffer)"

text \<open>
  \<open>generateEnhancedThumbnail\<close>, lines 194 to 209: the body of the \<open>try\<close> is the single
  \<open>return\<close> of the buffer it was given; \<open>title\<close> and \<open>effects\<close> are not read.
\<close>

definition generateEnhancedThumbnail ::
  "buffer \<Rightarrow> string \<Rightarrow> effects \<Rightarrow> buffer outcome io" where
  "generateEnhancedThumbnail thumbnailBuffer title effects =
     try_catch (io_return thumbnailBuffer)"

subsection \<open>What the collaborators are expected to do\<close>

text \<open>
  The encoder is a process outside the module. Its \<open>-shortest\<close> option is documented
  to end the output with the shorter input: a run on two existing inputs with that
  option which ends well leaves an output file whose duration is the smaller of the two
  input durations. \<open>dur\<close> is the duration of a media file.
\<close>

definition honours_shortest :: "(buffer \<Rightarrow> rat) \<Rightarrow> (ffmpeg_command \<Rightarrow> unit io) \<Rightarrow> bool" where
  "honours_shortest dur run \<longleftrightarrow>
     (\<forall>cmd w w' vp ap v a.
        inputs cmd = [vp, ap] \<and> files w vp = Some v \<and> files w ap = Some a \<and>
        ''-shortest'' \<in> set (outputOptions cmd) \<and> run cmd w = (Resolved (), w') \<longrightarrow>
        (\<exists>out. files w' (output_file cmd) = Some out \<and> dur out = min (dur v) (dur a)))"

text \<open>
  The \<open>screenshots\<close> request of \<open>fluent-ffmpeg\<close>: a timestamp written \<open>N%\<close> is \<open>N\<close>
  percent of the duration of the input, and a size is written \<open>WxH\<close>.
\<close>

definition digit_val :: "char \<Rightarrow> nat" where
  "digit_val c = of_char c - 48"

definition is_digit :: "char \<Rightarrow> bool" where
  "is_digit c \<longleftrightarrow> c \<in> set ''0123456789''"

definition read_nat :: "string \<Rightarrow> nat option" where
  "read_nat s =
     (if s \<noteq> [] \<and> list_all is_digit s
      then Some (foldl (\<lambda>acc c. 10 * acc + digit_val c) 0 s)
      else None)"

definition percent_of :: "string \<Rightarrow> nat option" where
  "percent_of s =
     (if s \<noteq> [] \<and> last s = CHR ''%'' then read_nat (butlast s) else None)"

definition parse_size :: "string \<Rightarrow> (nat \<times> nat) option" where
  "parse_size s =
     (case (read_nat (takeWhile (\<lambda>c. c \<noteq> CHR ''x'') s),
            read_nat (drop 1 (dropWhile (\<lambda>c. c \<noteq> CHR ''x'') s))) of
        (Some wd, Some ht) \<Rightarrow> Some (wd, ht)
      | _ \<Rightarrow> None)"

text \<open>
  \<open>frame v t sz\<close> is the image of the frame that the video \<open>v\<close> shows at time \<open>t\<close>,
  decoded at the size \<open>sz\<close>. A request with one percentage timestamp on an existing
  file that is a decodable video writes that frame to \<open>filename\<close> inside \<open>folder\<close>.
  Nothing is asked of the frame grabber on a file that is not a decodable video: it
  may fail there.
\<close>

definition grabs_frame ::
  "(buffer \<Rightarrow> bool) \<Rightarrow> (buffer \<Rightarrow> rat) \<Rightarrow> (buffer \<Rightarrow> rat \<Rightarrow> nat \<times> nat \<Rightarrow> buffer) \<Rightarrow>
   (string \<Rightarrow> screenshots_config \<Rightarrow> unit io) \<Rightarrow> bool" where
  "grabs_frame decodable dur frame grab \<longleftrightarrow>
     (\<forall>p cfg w v ts q sz.
        files w p = Some v \<and> decodable v \<and> timestamps cfg = [ts] \<and> percent_of ts = Some q \<and>
        parse_size (shot_size cfg) = Some sz \<longrightarrow>
        grab p cfg w =
          (Resolved (),
           w\<lparr>files := (files w)(path_join (folder cfg) (filename cfg) \<mapsto>
                 frame v (dur v * of_nat q / 100) sz)\<rparr>))"

text \<open>
  Modelled from the spec: \<open>createVisualizer\<close> of \<open>./visualizer\<close>, which is not among the
  sources. The specification says that an effect name outside the supported set makes
  the renderer fail with a \<open>ConfigurationError\<close>, leaving no file behind; for a supported
  configuration it renders (\<open>render\<close>, left open).
\<close>

definition createVisualizer_spec ::
  "string list \<Rightarrow> (analysis \<Rightarrow> buffer list \<Rightarrow> effects \<Rightarrow> string \<Rightarrow> string \<Rightarrow> string io) \<Rightarrow>
   analysis \<Rightarrow> buffer list \<Rightarrow> effects \<Rightarrow> string \<Rightarrow> string \<Rightarrow> string io" where
  "createVisualizer_spec supported render audioAnalysis imageFiles effects title tempDir w =
     (case filter (\<lambda>n. n \<notin> set supported) (map fst effects) of
        [] \<Rightarrow> render audioAnalysis imageFiles effects title tempDir w
      | n # _ \<Rightarrow> (Rejected (Error ''ConfigurationError'' (''Unknown effect: '' @ n)), w))"

text \<open>No collaborator leaves its promise pending.\<close>

definition settles :: "env \<Rightarrow> bool" where
  "settles e \<longleftrightarrow>
     (\<forall>a i f t d w. fst (createVisualizer e a i f t d w) \<noteq> Pending) \<and>
     (\<forall>c w. fst (ffmpeg_run e c w) \<noteq> Pending) \<and>
     (\<forall>p c w. fst (ffmpeg_screenshots e p c w) \<noteq> Pending)"

text \<open>The shape of a returned object: a payload and no error, or an error and no payload.\<close>

definition well_formed :: "'a outcome \<Rightarrow> bool" where
  "well_formed r \<longleftrightarrow>
     (if success r then payload r \<noteq> None \<and> error r = None
      else payload r = None \<and> error r \<noteq> None)"

subsection \<open>A test bench\<close>

text \<open>
  Concrete collaborators on which the functions can be run. A media file lasts two and
  a half seconds per byte, and a file with no byte is not a decodable video. The
  visualizer writes the concatenated images (or four zero bytes when there is none) to a
  file named after the title; the encoder adds its two inputs bytewise, up to the end of
  the shorter one under \<open>-shortest\<close>; the frame of a video at time \<open>t\<close> is the byte that
  covers \<open>t\<close>, and the frame grabber fails on a file that is not a decodable video.
\<close>

definition bench_dur :: "buffer \<Rightarrow> rat" where
  "bench_dur b = of_nat (length b) * 5 / 2"

definition bench_decodable :: "buffer \<Rightarrow> bool" where
  "bench_decodable v \<longleftrightarrow> v \<noteq> []"

definition bench_render ::
  "analysis \<Rightarrow> buffer list \<Rightarrow> effects \<Rightarrow> string \<Rightarrow> string \<Rightarrow> string io" where
  "bench_render audioAnalysis imageFiles effects title tempDir w =
     (let p = path_join tempDir (''visualizer-'' @ title @ ''.mp4'');
          v = (if imageFiles = [] then [0, 0, 0, 0] else concat imageFiles)
      in (Resolved p, w\<lparr>files := (files w)(p \<mapsto> v)\<rparr>))"

definition bench_mux :: "string list \<Rightarrow> buffer \<Rightarrow> buffer \<Rightarrow> buffer" where
  "bench_mux opts v a =
     (if ''-shortest'' \<in> set opts then map2 (+) v a
      else map2 (+) (v @ replicate (length a - length v) 0)
                    (a @ replicate (length v - length a) 0))"

definition bench_ffmpeg :: "ffmpeg_command \<Rightarrow> unit io" where
  "bench_ffmpeg cmd w =
     (case map (files w) (inputs cmd) of
        [Some v, Some a] \<Rightarrow>
          (Resolved (),
           w\<lparr>files := (files w)(output_file cmd \<mapsto> bench_mux (outputOptions cmd) v a)\<rparr>)
      | _ \<Rightarrow> (Rejected (Error ''Error''
                ''ffmpeg exited with code 1: No such file or directory''), w))"

definition bench_frame :: "buffer \<Rightarrow> rat \<Rightarrow> nat \<times> nat \<Rightarrow> buffer" where
  "bench_frame v t sz = take 1 (drop (nat \<lfloor>t * 2 / 5\<rfloor>) v)"

definition bench_screenshots :: "string \<Rightarrow> screenshots_config \<Rightarrow> unit io" where
  "bench_screenshots p cfg w =
     (case files w p of
        None \<Rightarrow> (Rejected (Error ''Error'' ''ffmpeg exited with code 1: No such file or directory''), w)
      | Some v \<Rightarrow>
          if \<not> bench_decodable v
          then (Rejected (Error ''Error''
                  ''ffmpeg exited with code 1: Invalid data found when processing input''), w)
          else
            (case (map percent_of (timestamps cfg), parse_size (shot_size cfg)) of
               ([Some q], Some sz) \<Rightarrow>
                 (Resolved (),
                  w\<lparr>files := (files w)(path_join (folder cfg) (filename cfg) \<mapsto>
                        bench_frame v (bench_dur v * of_nat q / 100) sz)\<rparr>)
             | _ \<Rightarrow> (Rejected (Error ''Error'' ''ffmpeg exited with code 1''), w)))"

definition bench :: env where
  "bench =
     \<lparr>tmpdir = ''/tmp'', now_at = (\<lambda>k. 1000 + k), write_fails = (\<lambda>p. False),
      createVisualizer = createVisualizer_spec [''zoom'', ''pulse'', ''glitch'', ''text_overlay''] bench_render,
      ffmpeg_run = bench_ffmpeg,
      ffmpeg_screenshots = bench_screenshots\<rparr>"

definition w0 :: world where
  "w0 = \<lparr>files = Map.empty, reads = 0\<rparr>"

text \<open>
  Variants of the bench: an encoder and a frame grabber that exit with an error, an
  encoder that never exits, a frame grabber that never exits, and a clock that stands
  still within one millisecond.
\<close>

definition bench_failing :: env where
  "bench_failing =
     bench\<lparr>ffmpeg_run := (\<lambda>cmd w.
              (Rejected (Error ''Error'' ''ffmpeg exited with code 1: Conversion failed!''), w)),
           ffmpeg_screenshots := (\<lambda>p cfg w.
              (Rejected (Error ''Error'' ''ffmpeg exited with code 1: Invalid data found''), w))\<rparr>"

definition bench_hanging :: env where
  "bench_hanging = bench\<lparr>ffmpeg_run := (\<lambda>cmd w. (Pending, w))\<rparr>"

definition bench_stalled :: env where
  "bench_stalled = bench\<lparr>ffmpeg_screenshots := (\<lambda>p cfg w. (Pending, w))\<rparr>"

definition bench_same_ms :: env where
  "bench_same_ms = bench\<lparr>now_at := (\<lambda>k. 1000)\<rparr>"

text \<open>An analysis to pass to \<open>generateVideo\<close>.\<close>

definition an0 :: analysis where
  "an0 = \<lparr>bpm = 60, beats = [0, 1, 2], duration = 3, waveform = []\<rparr>"

section \<open>Properties\<close>

subsection \<open>Sequencing and \<open>try\<close>/\<open>catch\<close>\<close>

lemma io_bind_Resolved: "m w = (Resolved x, w') \<Longrightarrow> io_bind m f w = f x w'"
  by (simp add: io_bind_def)

lemma io_bind_Rejected: "m w = (Rejected x, w') \<Longrightarrow> io_bind m f w = (Rejected x, w')"
  by (simp add: io_bind_def)

lemma io_bind_Pending: "m w = (Pending, w') \<Longrightarrow> io_bind m f w = (Pending, w')"
  by (simp add: io_bind_def)

lemma try_catch_not_Rejected: "fst (try_catch body w) \<noteq> Rejected x"
  by (simp add: try_catch_def split: prod.splits completion.splits)

lemma try_catch_Rejected:
  "body w = (Rejected x, w') \<Longrightarrow>
   try_catch body w = (Resolved \<lparr>success = False, payload = None, error = Some (message x)\<rparr>, w')"
  by (simp add: try_catch_def)

lemma try_catch_Pending: "body w = (Pending, w') \<Longrightarrow> try_catch body w = (Pending, w')"
  by (simp add: try_catch_def)

lemma try_catch_Resolved:
  "body w = (Resolved v, w') \<Longrightarrow>
   try_catch body w = (Resolved \<lparr>success = True, payload = Some v, error = None\<rparr>, w')"
  by (simp add: try_catch_def)

lemma try_catch_failure:
  assumes "try_catch body w = (Resolved r, w')" and "\<not> success r"
  shows "payload r = None \<and> (\<exists>x. body w = (Rejected x, w') \<and> error r = Some (message x))"
  using assms by (auto simp: try_catch_def split: prod.splits completion.splits)

lemma try_catch_well_formed:
  assumes "try_catch body w = (Resolved r, w')"
  shows "well_formed r"
  using assms by (auto simp: try_catch_def well_formed_def split: prod.splits completion.splits)

lemma try_catch_returns:
  assumes "fst (body w) \<noteq> Pending"
  shows "\<exists>r w'. try_catch body w = (Resolved r, w') \<and> well_formed r"
  using assms by (auto simp: try_catch_def well_formed_def split: prod.splits completion.splits)

lemma io_bind_settles:
  assumes "fst (m w) \<noteq> Pending" and "\<And>x w'. fst (f x w') \<noteq> Pending"
  shows "fst (io_bind m f w) \<noteq> Pending"
  using assms by (auto simp: io_bind_def split: prod.splits completion.splits)

lemma prim_settle:
  "fst (Date_now e w) \<noteq> Pending" "fst (fs_writeFile e p b w) \<noteq> Pending"
  "fst (fs_readFile p w) \<noteq> Pending" "fst (fs_unlink p w) \<noteq> Pending"
  "fst (io_return x w) \<noteq> Pending"
  by (simp_all add: Date_now_def fs_writeFile_def fs_readFile_def fs_unlink_def io_return_def
      split: option.splits)

lemma generateVideo_try_settles:
  assumes "settles e" shows "fst (generateVideo_try e b a i f t w) \<noteq> Pending"
  using assms unfolding generateVideo_try_def generateVideo_save_def generateVideo_render_def
    generateVideo_resume_def generateVideo_encode_def generateVideo_collect_def Let_def settles_def split_def
  by (intro io_bind_settles prim_settle) auto

lemma createThumbnail_try_settles:
  assumes "settles e" shows "fst (createThumbnail_try e b w) \<noteq> Pending"
  using assms unfolding createThumbnail_try_def Let_def settles_def
  by (intro io_bind_settles prim_settle) auto

lemma pair_fstI: "fst x = a \<Longrightarrow> x = (a, snd x)"
  by (cases x) simp

subsection \<open>Temporary names\<close>

lemma percent_of_50: "percent_of ''50%'' = Some 50"
  by code_simp

lemma parse_size_720p: "parse_size ''1280x720'' = Some (1280, 720)"
  by code_simp

lemma digit_char_digit: "d < 10 \<Longrightarrow> digit_char d \<in> set ''0123456789''"
  unfolding digit_char_def by (rule nth_mem) simp

lemma show_nat_digits: "set (show_nat n) \<subseteq> set ''0123456789''"
proof (induction n rule: show_nat.induct)
  case (1 n)
  show ?case
  proof (cases "n < 10")
    case True
    then show ?thesis using digit_char_digit [of n] by (subst show_nat.simps) simp
  next
    case False
    have "n mod 10 < 10" by simp
    then have "digit_char (n mod 10) \<in> set ''0123456789''" by (rule digit_char_digit)
    with False 1 show ?thesis by (subst show_nat.simps) simp
  qed
qed

lemma show_nat_no_slash: "CHR ''/'' \<notin> set (show_nat n)"
  using show_nat_digits [of n] by auto

lemma path_join_inject: "path_join d a = path_join d b \<longleftrightarrow> a = b"
  by (simp add: path_join_def)

lemma takeWhile_all_name:
  "CHR 0x2F \<notin> set xs \<Longrightarrow> takeWhile (\<lambda>c. c \<noteq> CHR 0x2F) xs = xs"
  by (induction xs) auto

lemma takeWhile_upto_slash:
  "CHR 0x2F \<notin> set xs \<Longrightarrow> takeWhile (\<lambda>c. c \<noteq> CHR 0x2F) (xs @ CHR 0x2F # r) = xs"
  by (induction xs) auto

lemma dropWhile_upto_slash:
  "CHR 0x2F \<notin> set xs \<Longrightarrow>
   dropWhile (\<lambda>c. c \<noteq> CHR 0x2F) (xs @ CHR 0x2F # r) = CHR 0x2F # r"
  by (induction xs) auto

lemma psj_dot:
  assumes "CHR 0x2F \<notin> set n" and "d = [] \<or> d = ''.''"
  shows "path_join (path_dirname (path_join d n)) (path_basename (path_join d n)) = path_join d n"
proof -
  have j: "path_join d n = n" using assms(2) by (auto simp: path_join_def)
  have b: "path_basename n = n"
    using assms(1) by (simp add: path_basename_def takeWhile_all_name)
  have d: "path_dirname n = ''.''" using assms(1) by (simp add: path_dirname_def)
  show ?thesis unfolding j b d by (simp add: path_join_def)
qed

lemma psj_root:
  assumes "CHR 0x2F \<notin> set n" and "d = ''/''"
  shows "path_join (path_dirname (path_join d n)) (path_basename (path_join d n)) = path_join d n"
proof -
  have j: "path_join d n = CHR 0x2F # n" using assms(2) by (simp add: path_join_def)
  have r: "rev (CHR 0x2F # n) = rev n @ CHR 0x2F # []" by simp
  have b: "path_basename (CHR 0x2F # n) = n"
    unfolding path_basename_def r using assms(1) by (simp add: takeWhile_upto_slash)
  have d: "path_dirname (CHR 0x2F # n) = ''/''"
    unfolding path_dirname_def r using assms(1)
    by (simp add: Let_def dropWhile_upto_slash)
  show ?thesis unfolding j b d by (simp add: path_join_def)
qed

lemma psj_dir:
  assumes "CHR 0x2F \<notin> set n" and "d \<noteq> []" "d \<noteq> ''.''" "d \<noteq> ''/''"
  shows "path_join (path_dirname (path_join d n)) (path_basename (path_join d n)) = path_join d n"
proof -
  have j: "path_join d n = d @ CHR 0x2F # n" using assms(2-4) by (simp add: path_join_def)
  have r: "rev (d @ CHR 0x2F # n) = rev n @ CHR 0x2F # rev d" by simp
  have b: "path_basename (d @ CHR 0x2F # n) = n"
    unfolding path_basename_def r using assms(1) by (simp add: takeWhile_upto_slash)
  have d: "path_dirname (d @ CHR 0x2F # n) = d"
    unfolding path_dirname_def r using assms(1,2)
    by (simp add: Let_def dropWhile_upto_slash)
  show ?thesis unfolding j b d by (simp add: j)
qed

lemma path_split_join:
  assumes "CHR 0x2F \<notin> set n"
  shows "path_join (path_dirname (path_join d n)) (path_basename (path_join d n)) = path_join d n"
  using psj_dot [OF assms, of d] psj_root [OF assms, of d] psj_dir [OF assms, of d] by blast

lemma temp_name_no_slash:
  "CHR ''/'' \<notin> set (''thumbnail-'' @ show_nat t @ ''.jpg'')"
  using show_nat_no_slash [of t] by simp

subsection \<open>The stretches of \<open>generateVideo\<close>\<close>

lemma generateVideo_try_steps:
  assumes save: "generateVideo_save e ab w = (Resolved audioPath, w1)"
    and render: "generateVideo_render e an im ef ti w1 = (Resolved (outputPath, visualizerPath), w2)"
  shows "generateVideo_try e ab an im ef ti w =
           io_bind (generateVideo_encode e visualizerPath audioPath outputPath)
             (\<lambda>_. generateVideo_collect visualizerPath audioPath outputPath) w2"
  unfolding generateVideo_try_def generateVideo_resume_def
  by (simp add: io_bind_Resolved [where m = "generateVideo_save e ab", OF save]
      io_bind_Resolved [where m = "generateVideo_render e an im ef ti", OF render])

lemma generateVideo_save_file:
  assumes "generateVideo_save e ab w = (Resolved audioPath, w1)"
  shows "files w1 audioPath = Some ab"
  using assms
  by (auto simp: generateVideo_save_def io_bind_def io_return_def Date_now_def fs_writeFile_def
      Let_def split: if_splits)

lemma generateVideo_collect_payload:
  assumes "generateVideo_collect vp ap op w = (Resolved vb, w')"
  shows "files w op = Some vb"
  using assms
  by (auto simp: generateVideo_collect_def io_bind_def io_return_def fs_readFile_def
      split: option.splits prod.splits completion.splits)

subsection \<open>The bench meets the contracts\<close>

lemma bench_honours_shortest: "honours_shortest bench_dur (ffmpeg_run bench)"
  unfolding honours_shortest_def
proof (intro allI impI)
  fix cmd and w w' :: world and vp ap v a
  assume h: "inputs cmd = [vp, ap] \<and> files w vp = Some v \<and> files w ap = Some a \<and>
             ''-shortest'' \<in> set (outputOptions cmd) \<and> ffmpeg_run bench cmd w = (Resolved (), w')"
  then have w': "w' = w\<lparr>files := (files w)(output_file cmd \<mapsto> map2 (+) v a)\<rparr>"
    by (auto simp: bench_def bench_ffmpeg_def bench_mux_def)
  have "bench_dur (map2 (+) v a) = min (bench_dur v) (bench_dur a)"
    by (simp add: bench_dur_def min_def)
  with w' show "\<exists>out. files w' (output_file cmd) = Some out \<and>
                  bench_dur out = min (bench_dur v) (bench_dur a)"
    by simp
qed

lemma bench_grabs_frame:
  "grabs_frame bench_decodable bench_dur bench_frame (ffmpeg_screenshots bench)"
  unfolding grabs_frame_def by (simp add: bench_def bench_screenshots_def)

lemma bench_settles: "settles bench"
  unfolding settles_def
  by (auto simp: bench_def bench_render_def bench_ffmpeg_def
      bench_screenshots_def createVisualizer_spec_def Let_def
      split: option.splits list.splits if_splits)

subsection \<open>The claims\<close>

text \<open>
  Claim C1. Every temporary file a stage has allocated is deleted before the stage
  returns, on the error path as on the success path. The \<open>catch\<close> blocks delete
  nothing: when the encoder exits with an error, \<open>generateVideo\<close> returns its failure
  while the saved audio and the visualizer output are still on disk; when the frame
  grabber fails, \<open>createThumbnail\<close> leaves the saved video.
\<close>

theorem temp_files_left_on_error:
  "fst (generateVideo bench_failing [1, 2, 3] an0 [] [] ''t'' w0) =
     Resolved \<lparr>success = False, payload = None,
               error = Some ''ffmpeg exited with code 1: Conversion failed!''\<rparr> \<and>
   files (snd (generateVideo bench_failing [1, 2, 3] an0 [] [] ''t'' w0)) ''/tmp/audio-1000.mp3'' =
     Some [1, 2, 3] \<and>
   files (snd (generateVideo bench_failing [1, 2, 3] an0 [] [] ''t'' w0)) ''/tmp/visualizer-t.mp4'' =
     Some [0, 0, 0, 0] \<and>
   fst (createThumbnail bench_failing [1, 2] w0) =
     Resolved \<lparr>success = False, payload = None,
               error = Some ''ffmpeg exited with code 1: Invalid data found''\<rparr> \<and>
   files (snd (createThumbnail bench_failing [1, 2] w0)) ''/tmp/video-1000.mp4'' = Some [1, 2]"
  by code_simp

text \<open>
  Claim C2. With an encoder that honours \<open>-shortest\<close>, whenever \<open>generateVideo\<close>
  succeeds, the video it returns lasts as long as the shorter of the two files given to
  the encode step: the visualizer output \<open>v\<close> and the audio file \<open>a\<close>, which was saved
  with the bytes of \<open>audioBuffer\<close>.
\<close>

theorem shortest_join:
  assumes enc: "honours_shortest dur (ffmpeg_run e)"
    and save: "generateVideo_save e audioBuffer w = (Resolved audioPath, w1)"
    and render: "generateVideo_render e audioAnalysis imageFiles effects title w1 =
                   (Resolved (outputPath, visualizerPath), w2)"
    and video: "files w2 visualizerPath = Some v"
    and audio: "files w2 audioPath = Some a"
    and fin: "generateVideo e audioBuffer audioAnalysis imageFiles effects title w = (Resolved r, w')"
    and ok: "success r"
  shows "files w1 audioPath = Some audioBuffer \<and>
         (\<exists>out. payload r = Some out \<and> dur out = min (dur v) (dur a))"
proof -
  let ?cmd = "\<lparr>inputs = [visualizerPath, audioPath],
               outputOptions = [''-c:v libx264'', ''-pix_fmt yuv420p'', ''-c:a aac'', ''-shortest''],
               output_file = outputPath\<rparr>"
  from fin ok obtain vb where
    body: "generateVideo_try e audioBuffer audioAnalysis imageFiles effects title w = (Resolved vb, w')"
    and r: "payload r = Some vb"
    by (auto simp: generateVideo_def try_catch_def split: prod.splits completion.splits)
  from body obtain w3 where
    run: "ffmpeg_run e ?cmd w2 = (Resolved (), w3)"
    and coll: "generateVideo_collect visualizerPath audioPath outputPath w3 = (Resolved vb, w')"
    unfolding generateVideo_try_steps [OF save render] generateVideo_encode_def
    by (auto simp: io_bind_def split: prod.splits completion.splits)
  have "inputs ?cmd = [visualizerPath, audioPath]" "''-shortest'' \<in> set (outputOptions ?cmd)"
    "output_file ?cmd = outputPath"
    by simp_all
  with enc [unfolded honours_shortest_def, rule_format,
      where cmd = ?cmd and w = w2 and w' = w3 and vp = visualizerPath and ap = audioPath
        and v = v and a = a] video audio run
  obtain out where out: "files w3 outputPath = Some out" "dur out = min (dur v) (dur a)"
    by auto
  from generateVideo_collect_payload [OF coll] out have "vb = out" by simp
  with r out generateVideo_save_file [OF save] show ?thesis by simp
qed

text \<open>
  On the bench a 10 second visualizer output and a 7.5 second audio give a 7.5 second
  video.
\<close>

theorem shortest_join_witness:
  "honours_shortest bench_dur (ffmpeg_run bench) \<and>
   bench_dur [1, 1, 2, 2] = 10 \<and> bench_dur [1, 2, 3] = 15 / 2 \<and>
   fst (generateVideo bench [1, 2, 3] an0 [[1, 1], [2, 2]] [(''zoom'', True)] ''t'' w0) =
     Resolved \<lparr>success = True, payload = Some [2, 3, 5], error = None\<rparr> \<and>
   bench_dur [2, 3, 5] = 15 / 2"
proof -
  define w1 where "w1 = snd (generateVideo_save bench [1, 2, 3] w0)"
  define w2 where
    "w2 = snd (generateVideo_render bench an0 [[1, 1], [2, 2]] [(''zoom'', True)] ''t'' w1)"
  define w3 where
    "w3 = snd (generateVideo bench [1, 2, 3] an0 [[1, 1], [2, 2]] [(''zoom'', True)] ''t'' w0)"
  have save: "generateVideo_save bench [1, 2, 3] w0 = (Resolved ''/tmp/audio-1000.mp3'', w1)"
    unfolding w1_def by (rule pair_fstI) code_simp
  have render: "generateVideo_render bench an0 [[1, 1], [2, 2]] [(''zoom'', True)] ''t'' w1 =
      (Resolved (''/tmp/video-1001.mp4'', ''/tmp/visualizer-t.mp4''), w2)"
    unfolding w2_def w1_def by (rule pair_fstI) code_simp
  have video: "files w2 ''/tmp/visualizer-t.mp4'' = Some [1, 1, 2, 2]"
    unfolding w2_def w1_def by code_simp
  have audio: "files w2 ''/tmp/audio-1000.mp3'' = Some [1, 2, 3]"
    unfolding w2_def w1_def by code_simp
  have fin: "generateVideo bench [1, 2, 3] an0 [[1, 1], [2, 2]] [(''zoom'', True)] ''t'' w0 =
      (Resolved \<lparr>success = True, payload = Some [2, 3, 5], error = None\<rparr>, w3)"
    unfolding w3_def by (rule pair_fstI) code_simp
  from shortest_join [OF bench_honours_shortest save render video audio fin]
  have "bench_dur [2, 3, 5] = min (bench_dur [1, 1, 2, 2]) (bench_dur [1, 2, 3])"
    by simp
  moreover have "bench_dur [1, 1, 2, 2] = 10" "bench_dur [1, 2, 3] = 15 / 2"
    by (simp_all add: bench_dur_def)
  ultimately show ?thesis
    using bench_honours_shortest fin by simp
qed

text \<open>
  Claim C4, as stated: an unknown effect name makes \<open>generateVideo\<close> fail with a
  \<open>ConfigurationError\<close>. The call does not reject: it resolves with a failure object
  that holds the message only, the same object an error of another kind with that
  message produces.
\<close>

theorem unknown_effect_not_a_ConfigurationError:
  "fst (generateVideo bench [1, 2, 3] an0 [] [(''nonexistent_effect'', True)] ''t'' w0) =
     Resolved \<lparr>success = False, payload = None,
               error = Some ''Unknown effect: nonexistent_effect''\<rparr> \<and>
   fst (generateVideo bench [1, 2, 3] an0 [] [(''nonexistent_effect'', True)] ''t'' w0) \<noteq>
     Rejected (Error ''ConfigurationError'' ''Unknown effect: nonexistent_effect'') \<and>
   fst (generateVideo bench [1, 2, 3] an0 [] [(''nonexistent_effect'', True)] ''t'' w0) =
   fst (generateVideo
         (bench\<lparr>ffmpeg_run := (\<lambda>cmd w.
            (Rejected (Error ''EncodingError'' ''Unknown effect: nonexistent_effect''), w))\<rparr>)
         [1, 2, 3] an0 [] [] ''t'' w0)"
  by code_simp

text \<open>
  Claim C4, amended. With the renderer rejecting unknown effect names, and the audio
  file written, \<open>generateVideo\<close> on a configuration with an unknown effect name returns
  \<open>success: false\<close> with the message of the renderer's error, and no file other than
  the saved audio differs from before the call: no output video and no visualizer
  output exist.
\<close>

theorem unknown_effect_fails:
  assumes vis: "createVisualizer e = createVisualizer_spec supported render"
    and unknown: "\<exists>n \<in> set (map fst effects). n \<notin> set supported"
    and wr: "\<not> write_fails e
        (path_join (tmpdir e) (''audio-'' @ show_nat (now_at e (reads w)) @ ''.mp3''))"
  shows "fst (generateVideo e audioBuffer audioAnalysis imageFiles effects title w) =
           Resolved \<lparr>success = False, payload = None,
             error = Some (''Unknown effect: '' @
                       hd (filter (\<lambda>n. n \<notin> set supported) (map fst effects)))\<rparr> \<and>
         (\<forall>p. p \<noteq> path_join (tmpdir e) (''audio-'' @ show_nat (now_at e (reads w)) @ ''.mp3'') \<longrightarrow>
              files (snd (generateVideo e audioBuffer audioAnalysis imageFiles effects title w)) p =
              files w p)"
proof -
  define audioPath where
    "audioPath = path_join (tmpdir e) (''audio-'' @ show_nat (now_at e (reads w)) @ ''.mp3'')"
  define bad where "bad = filter (\<lambda>n. n \<notin> set supported) (map fst effects)"
  from unknown have "bad \<noteq> []" by (auto simp: bad_def filter_empty_conv)
  then obtain n ns where bad: "bad = n # ns" by (cases bad) auto
  define w1 where "w1 = w\<lparr>reads := Suc (reads w), files := (files w)(audioPath \<mapsto> audioBuffer)\<rparr>"
  define w2 where "w2 = w1\<lparr>reads := Suc (reads w1)\<rparr>"
  have save: "generateVideo_save e audioBuffer w = (Resolved audioPath, w1)"
    using wr
    by (simp add: generateVideo_save_def io_bind_def io_return_def Date_now_def fs_writeFile_def
        Let_def audioPath_def w1_def)
  have render: "generateVideo_render e audioAnalysis imageFiles effects title w1 =
      (Rejected (Error ''ConfigurationError'' (''Unknown effect: '' @ n)), w2)"
    using bad
    by (simp add: generateVideo_render_def io_bind_def Date_now_def Let_def vis
        createVisualizer_spec_def bad_def w2_def)
  have "generateVideo_try e audioBuffer audioAnalysis imageFiles effects title w =
      (Rejected (Error ''ConfigurationError'' (''Unknown effect: '' @ n)), w2)"
    unfolding generateVideo_try_def generateVideo_resume_def
    by (simp add: io_bind_Resolved [where m = "generateVideo_save e audioBuffer", OF save]
        io_bind_Rejected [where m = "generateVideo_render e audioAnalysis imageFiles effects title",
          OF render])
  then have res: "generateVideo e audioBuffer audioAnalysis imageFiles effects title w =
      (Resolved \<lparr>success = False, payload = None, error = Some (''Unknown effect: '' @ n)\<rparr>, w2)"
    by (simp add: generateVideo_def try_catch_def)
  have frame: "\<forall>p. p \<noteq> audioPath \<longrightarrow> files w2 p = files w p"
    by (simp add: w2_def w1_def)
  show ?thesis
    unfolding audioPath_def [symmetric] bad_def [symmetric] using res bad frame by simp
qed

text \<open>
  On the bench, a configuration with \<open>zoom\<close> and \<open>nonexistent_effect\<close> is refused
  and the output path holds no file.
\<close>

theorem unknown_effect_fails_witness:
  "createVisualizer bench =
     createVisualizer_spec [''zoom'', ''pulse'', ''glitch'', ''text_overlay''] bench_render \<and>
   \<not> write_fails bench ''/tmp/audio-1000.mp3'' \<and>
   fst (generateVideo bench [1, 2, 3] an0 [] [(''zoom'', True), (''nonexistent_effect'', True)]
          ''t'' w0) =
     Resolved \<lparr>success = False, payload = None,
               error = Some ''Unknown effect: nonexistent_effect''\<rparr> \<and>
   files (snd (generateVideo bench [1, 2, 3] an0 [] [(''zoom'', True), (''nonexistent_effect'', True)]
          ''t'' w0)) ''/tmp/video-1001.mp4'' = None"
proof -
  have vis: "createVisualizer bench =
      createVisualizer_spec [''zoom'', ''pulse'', ''glitch'', ''text_overlay''] bench_render"
    by (simp add: bench_def)
  have unknown: "\<exists>n \<in> set (map fst [(''zoom'', True), (''nonexistent_effect'', True)]).
      n \<notin> set [''zoom'', ''pulse'', ''glitch'', ''text_overlay'']"
    by simp
  have wr: "\<not> write_fails bench
      (path_join (tmpdir bench) (''audio-'' @ show_nat (now_at bench (reads w0)) @ ''.mp3''))"
    by (simp add: bench_def)
  have p: "path_join (tmpdir bench) (''audio-'' @ show_nat (now_at bench (reads w0)) @ ''.mp3'') =
      ''/tmp/audio-1000.mp3''"
    by code_simp
  from unknown_effect_fails [OF vis unknown wr, of "[1, 2, 3]" an0 "[]" "''t''"]
  show ?thesis
    unfolding p by (simp add: bench_def w0_def)
qed

text \<open>
  Claim C5, as stated: an encoder that does not exit within the timeout makes the call
  fail instead of hanging. No timeout is set: with an encoder that never exits,
  \<open>generateVideo\<close> never returns.
\<close>

theorem encoder_hang_counterexample:
  "fst (generateVideo bench_hanging [1, 2, 3] an0 [] [] ''t'' w0) = Pending"
  by code_simp

text \<open>
  Claim C5, amended. Once the audio is saved and the visualizer rendered, an error of
  the encoder (a non-zero exit) makes \<open>generateVideo\<close> return \<open>success: false\<close> with
  the message of that error, and an encoder that never exits leaves \<open>generateVideo\<close>
  pending.
\<close>

theorem encoder_failure_reported:
  assumes save: "generateVideo_save e audioBuffer w = (Resolved audioPath, w1)"
    and render: "generateVideo_render e audioAnalysis imageFiles effects title w1 =
                   (Resolved (outputPath, visualizerPath), w2)"
  shows "(generateVideo_encode e visualizerPath audioPath outputPath w2 = (Rejected x, w3) \<longrightarrow>
            generateVideo e audioBuffer audioAnalysis imageFiles effects title w =
              (Resolved \<lparr>success = False, payload = None, error = Some (message x)\<rparr>, w3)) \<and>
         (generateVideo_encode e visualizerPath audioPath outputPath w2 = (Pending, w3) \<longrightarrow>
            generateVideo e audioBuffer audioAnalysis imageFiles effects title w = (Pending, w3))"
  unfolding generateVideo_def try_catch_def generateVideo_try_steps [OF save render]
  by (simp add: io_bind_def)

text \<open>
  On the bench, the failing encoder's message comes back in the result, and the
  hanging encoder leaves the call pending.
\<close>

theorem encoder_failure_reported_witness:
  "fst (generateVideo bench_failing [1, 2, 3] an0 [] [] ''t'' w0) =
     Resolved \<lparr>success = False, payload = None,
               error = Some ''ffmpeg exited with code 1: Conversion failed!''\<rparr> \<and>
   fst (generateVideo bench_hanging [1, 2, 3] an0 [] [] ''t'' w0) = Pending"
proof -
  define w1 where "w1 = snd (generateVideo_save bench_failing [1, 2, 3] w0)"
  define w2 where "w2 = snd (generateVideo_render bench_failing an0 [] [] ''t'' w1)"
  define w3 where "w3 = snd (generateVideo_encode bench_failing ''/tmp/visualizer-t.mp4''
      ''/tmp/audio-1000.mp3'' ''/tmp/video-1001.mp4'' w2)"
  have save: "generateVideo_save bench_failing [1, 2, 3] w0 =
      (Resolved ''/tmp/audio-1000.mp3'', w1)"
    unfolding w1_def by (rule pair_fstI) code_simp
  have render: "generateVideo_render bench_failing an0 [] [] ''t'' w1 =
      (Resolved (''/tmp/video-1001.mp4'', ''/tmp/visualizer-t.mp4''), w2)"
    unfolding w2_def w1_def by (rule pair_fstI) code_simp
  have enc: "generateVideo_encode bench_failing ''/tmp/visualizer-t.mp4'' ''/tmp/audio-1000.mp3''
      ''/tmp/video-1001.mp4'' w2 =
      (Rejected (Error ''Error'' ''ffmpeg exited with code 1: Conversion failed!''), w3)"
    unfolding w3_def by (rule pair_fstI) (simp add: generateVideo_encode_def bench_failing_def)
  define v1 where "v1 = snd (generateVideo_save bench_hanging [1, 2, 3] w0)"
  define v2 where "v2 = snd (generateVideo_render bench_hanging an0 [] [] ''t'' v1)"
  define v3 where "v3 = snd (generateVideo_encode bench_hanging ''/tmp/visualizer-t.mp4''
      ''/tmp/audio-1000.mp3'' ''/tmp/video-1001.mp4'' v2)"
  have save': "generateVideo_save bench_hanging [1, 2, 3] w0 =
      (Resolved ''/tmp/audio-1000.mp3'', v1)"
    unfolding v1_def by (rule pair_fstI) code_simp
  have render': "generateVideo_render bench_hanging an0 [] [] ''t'' v1 =
      (Resolved (''/tmp/video-1001.mp4'', ''/tmp/visualizer-t.mp4''), v2)"
    unfolding v2_def v1_def by (rule pair_fstI) code_simp
  have enc': "generateVideo_encode bench_hanging ''/tmp/visualizer-t.mp4'' ''/tmp/audio-1000.mp3''
      ''/tmp/video-1001.mp4'' v2 = (Pending, v3)"
    unfolding v3_def by (rule pair_fstI) (simp add: generateVideo_encode_def bench_hanging_def)
  from encoder_failure_reported [OF save render, THEN conjunct1, rule_format, OF enc]
    encoder_failure_reported [OF save' render', THEN conjunct2, rule_format, OF enc']
  show ?thesis by simp
qed

text \<open>
  Claim C6. Two jobs never touch each other's temporary files. The names are built from
  the shared temporary directory and the clock reading alone, so two jobs that read the
  clock in the same millisecond use the same audio file: the second job's audio
  overwrites the first's, the first job's video is then encoded from the second job's
  audio (alone it would have returned its own), and the second job fails because the
  first has deleted the file.
\<close>

theorem same_millisecond_jobs_collide:
  "fst (generateVideo_save bench_same_ms [1, 1, 1] w0) = Resolved ''/tmp/audio-1000.mp3'' \<and>
   fst (generateVideo_save bench_same_ms [9, 9, 9] (snd (generateVideo_save bench_same_ms [1, 1, 1] w0)))
     = Resolved ''/tmp/audio-1000.mp3'' \<and>
   files (snd (generateVideo_save bench_same_ms [9, 9, 9]
            (snd (generateVideo_save bench_same_ms [1, 1, 1] w0)))) ''/tmp/audio-1000.mp3'' =
     Some [9, 9, 9] \<and>
   fst (generateVideo_resume bench_same_ms ''/tmp/audio-1000.mp3'' an0 [] [] ''first''
          (snd (generateVideo_save bench_same_ms [9, 9, 9]
             (snd (generateVideo_save bench_same_ms [1, 1, 1] w0))))) = Resolved [9, 9, 9] \<and>
   fst (generateVideo bench_same_ms [1, 1, 1] an0 [] [] ''first'' w0) =
     Resolved \<lparr>success = True, payload = Some [1, 1, 1], error = None\<rparr> \<and>
   fst (generateVideo_resume bench_same_ms ''/tmp/audio-1000.mp3'' an0 [] [] ''second''
          (snd (generateVideo_resume bench_same_ms ''/tmp/audio-1000.mp3'' an0 [] [] ''first''
             (snd (generateVideo_save bench_same_ms [9, 9, 9]
                (snd (generateVideo_save bench_same_ms [1, 1, 1] w0))))))) =
     Rejected (Error ''Error'' ''ffmpeg exited with code 1: No such file or directory'')"
  by code_simp

text \<open>
  Claim C7. With a frame grabber that meets its contract on decodable videos,
  \<open>createThumbnail\<close> on a decodable video whose temporary file can be written returns
  the frame at half the duration of the video, decoded at 1280 by 720.
\<close>

theorem thumbnail_at_midpoint:
  assumes grab: "grabs_frame decodable dur frame (ffmpeg_screenshots e)"
    and dec: "decodable videoBuffer"
    and wr: "\<not> write_fails e
        (path_join (tmpdir e) (''video-'' @ show_nat (now_at e (reads w)) @ ''.mp4''))"
  shows "fst (createThumbnail e videoBuffer w) =
           Resolved \<lparr>success = True,
                     payload = Some (frame videoBuffer (dur videoBuffer / 2) (1280, 720)),
                     error = None\<rparr>"
proof -
  define videoPath where
    "videoPath = path_join (tmpdir e) (''video-'' @ show_nat (now_at e (reads w)) @ ''.mp4'')"
  define thumbnailPath where
    "thumbnailPath =
       path_join (tmpdir e) (''thumbnail-'' @ show_nat (now_at e (Suc (reads w))) @ ''.jpg'')"
  define cfg where
    "cfg = \<lparr>timestamps = [''50%''], filename = path_basename thumbnailPath,
            folder = path_dirname thumbnailPath, shot_size = ''1280x720''\<rparr>"
  define w1 where "w1 = w\<lparr>reads := Suc (reads w)\<rparr>"
  define w2 where "w2 = w1\<lparr>files := (files w1)(videoPath \<mapsto> videoBuffer)\<rparr>"
  define w3 where "w3 = w2\<lparr>reads := Suc (reads w2)\<rparr>"
  define img where "img = frame videoBuffer (dur videoBuffer * of_nat 50 / 100) (1280, 720)"
  define w4 where "w4 = w3\<lparr>files := (files w3)(thumbnailPath \<mapsto> img)\<rparr>"
  have differ: "thumbnailPath \<noteq> videoPath"
    by (simp add: thumbnailPath_def videoPath_def path_join_inject)
  have target: "path_join (folder cfg) (filename cfg) = thumbnailPath"
    unfolding cfg_def thumbnailPath_def using path_split_join [OF temp_name_no_slash] by simp
  have s1: "Date_now e w = (Resolved (now_at e (reads w)), w1)"
    by (simp add: Date_now_def w1_def)
  have s2: "fs_writeFile e videoPath videoBuffer w1 = (Resolved (), w2)"
    using wr by (simp add: fs_writeFile_def w2_def videoPath_def)
  have s3: "Date_now e w2 = (Resolved (now_at e (Suc (reads w))), w3)"
    by (simp add: Date_now_def w3_def w2_def w1_def)
  have inp: "files w3 videoPath = Some videoBuffer" by (simp add: w3_def w2_def)
  have req: "timestamps cfg = [''50%'']" "parse_size (shot_size cfg) = Some (1280, 720)"
    by (simp_all add: cfg_def parse_size_720p)
  have s4: "ffmpeg_screenshots e videoPath cfg w3 = (Resolved (), w4)"
    using grab [unfolded grabs_frame_def, rule_format,
        where p = videoPath and cfg = cfg and w = w3 and v = videoBuffer
          and ts = "''50%''" and q = 50 and sz = "(1280, 720)"]
      inp dec req percent_of_50 target
    by (simp add: w4_def img_def)
  have s5: "fs_readFile thumbnailPath w4 = (Resolved img, w4)"
    by (simp add: fs_readFile_def w4_def)
  define w5 where "w5 = w4\<lparr>files := (files w4)(videoPath := None)\<rparr>"
  define w6 where "w6 = w5\<lparr>files := (files w5)(thumbnailPath := None)\<rparr>"
  have s6: "fs_unlink videoPath w4 = (Resolved (), w5)"
    using differ by (simp add: fs_unlink_def w5_def w4_def w3_def w2_def)
  have s7: "fs_unlink thumbnailPath w5 = (Resolved (), w6)"
    using differ by (simp add: fs_unlink_def w6_def w5_def w4_def)
  have "createThumbnail_try e videoBuffer w = (Resolved img, w6)"
    unfolding createThumbnail_try_def Let_def videoPath_def [symmetric]
    apply (subst io_bind_Resolved [where m = "Date_now e" and w = w, OF s1])
    apply (simp only: videoPath_def [symmetric])
    apply (subst io_bind_Resolved [where m = "fs_writeFile e videoPath videoBuffer" and w = w1, OF s2])
    apply (subst io_bind_Resolved [where m = "Date_now e" and w = w2, OF s3])
    apply (simp only: thumbnailPath_def [symmetric] cfg_def [symmetric])
    apply (subst io_bind_Resolved [where m = "ffmpeg_screenshots e videoPath cfg" and w = w3, OF s4])
    apply (subst io_bind_Resolved [where m = "fs_readFile thumbnailPath" and w = w4, OF s5])
    apply (subst io_bind_Resolved [where m = "fs_unlink videoPath" and w = w4, OF s6])
    apply (subst io_bind_Resolved [where m = "fs_unlink thumbnailPath" and w = w5, OF s7])
    apply (simp add: io_return_def)
    done
  then show ?thesis
    by (simp add: createThumbnail_def try_catch_def img_def)
qed

text \<open>
  On the bench, a four byte video lasts 10 seconds and its frame at 5 seconds is the
  third byte. The frame grabber of the bench meets the contract and still fails on a
  file that is not a decodable video.
\<close>

theorem thumbnail_at_midpoint_witness:
  "grabs_frame bench_decodable bench_dur bench_frame (ffmpeg_screenshots bench) \<and>
   bench_decodable [1, 2, 3, 4] \<and>
   \<not> write_fails bench ''/tmp/video-1000.mp4'' \<and>
   bench_dur [1, 2, 3, 4] / 2 = 5 \<and>
   fst (createThumbnail bench [1, 2, 3, 4] w0) =
     Resolved \<lparr>success = True, payload = Some [3], error = None\<rparr> \<and>
   \<not> bench_decodable [] \<and>
   fst (createThumbnail bench [] w0) =
     Resolved \<lparr>success = False, payload = None,
               error = Some ''ffmpeg exited with code 1: Invalid data found when processing input''\<rparr>"
proof -
  have dec: "bench_decodable [1, 2, 3, 4]" "\<not> bench_decodable []"
    by (simp_all add: bench_decodable_def)
  have bad: "fst (createThumbnail bench [] w0) =
      Resolved \<lparr>success = False, payload = None,
                error = Some ''ffmpeg exited with code 1: Invalid data found when processing input''\<rparr>"
    by code_simp
  have wr: "\<not> write_fails bench
      (path_join (tmpdir bench) (''video-'' @ show_nat (now_at bench (reads w0)) @ ''.mp4''))"
    by (simp add: bench_def)
  have fr: "bench_frame [1, 2, 3, 4] (bench_dur [1, 2, 3, 4] / 2) (1280, 720) = [3]"
    by (simp add: bench_frame_def bench_dur_def)
  from thumbnail_at_midpoint [OF bench_grabs_frame dec(1) wr] fr
  have "fst (createThumbnail bench [1, 2, 3, 4] w0) =
      Resolved \<lparr>success = True, payload = Some [3], error = None\<rparr>"
    by simp
  then show ?thesis
    using bench_grabs_frame dec bad by (simp add: bench_def bench_dur_def)
qed

text \<open>
  Claim C8, as stated: the caller receives the kind of the error. Two failures of
  different kinds with the same message give the same result.
\<close>

theorem error_kind_lost_counterexample:
  "fst (createThumbnail
         (bench\<lparr>ffmpeg_screenshots := (\<lambda>p cfg w. (Rejected (Error ''ExtractionError'' ''boom''), w))\<rparr>)
         [1, 2] w0) =
     Resolved \<lparr>success = False, payload = None, error = Some ''boom''\<rparr> \<and>
   fst (createThumbnail
         (bench\<lparr>ffmpeg_screenshots := (\<lambda>p cfg w. (Rejected (Error ''ResourceError'' ''boom''), w))\<rparr>)
         [1, 2] w0) =
     Resolved \<lparr>success = False, payload = None, error = Some ''boom''\<rparr> \<and>
   Error ''ExtractionError'' ''boom'' \<noteq> Error ''ResourceError'' ''boom''"
  by code_simp

text \<open>
  Claim C8, amended. When the body of \<open>generateVideo\<close> or \<open>createThumbnail\<close> throws,
  the caller receives \<open>success: false\<close> with the message of the error and no buffer;
  and every failed result has no buffer and carries the message of the error that was
  thrown.
\<close>

theorem failure_carries_message_only:
  "(generateVideo_try e audioBuffer audioAnalysis imageFiles effects title w = (Rejected x, w') \<longrightarrow>
      generateVideo e audioBuffer audioAnalysis imageFiles effects title w =
        (Resolved \<lparr>success = False, payload = None, error = Some (message x)\<rparr>, w')) \<and>
   (createThumbnail_try e videoBuffer w = (Rejected x, w') \<longrightarrow>
      createThumbnail e videoBuffer w =
        (Resolved \<lparr>success = False, payload = None, error = Some (message x)\<rparr>, w')) \<and>
   (generateVideo e audioBuffer audioAnalysis imageFiles effects title w = (Resolved r, w') \<and>
      \<not> success r \<longrightarrow>
      payload r = None \<and>
      (\<exists>y. generateVideo_try e audioBuffer audioAnalysis imageFiles effects title w = (Rejected y, w')
           \<and> error r = Some (message y))) \<and>
   (createThumbnail e videoBuffer w = (Resolved r, w') \<and> \<not> success r \<longrightarrow>
      payload r = None \<and>
      (\<exists>y. createThumbnail_try e videoBuffer w = (Rejected y, w') \<and> error r = Some (message y)))"
  by (auto simp: generateVideo_def createThumbnail_def try_catch_def
      split: prod.splits completion.splits)

text \<open>
  On the bench with the failing encoder and frame grabber, both functions return the
  message of the error their body threw.
\<close>

theorem failure_carries_message_only_witness:
  "fst (generateVideo_try bench_failing [1, 2, 3] an0 [] [] ''t'' w0) =
     Rejected (Error ''Error'' ''ffmpeg exited with code 1: Conversion failed!'') \<and>
   fst (generateVideo bench_failing [1, 2, 3] an0 [] [] ''t'' w0) =
     Resolved \<lparr>success = False, payload = None,
               error = Some ''ffmpeg exited with code 1: Conversion failed!''\<rparr> \<and>
   fst (createThumbnail bench_failing [1, 2] w0) =
     Resolved \<lparr>success = False, payload = None,
               error = Some ''ffmpeg exited with code 1: Invalid data found''\<rparr>"
proof -
  have g: "fst (generateVideo_try bench_failing [1, 2, 3] an0 [] [] ''t'' w0) =
      Rejected (Error ''Error'' ''ffmpeg exited with code 1: Conversion failed!'')"
    by code_simp
  have t: "fst (createThumbnail_try bench_failing [1, 2] w0) =
      Rejected (Error ''Error'' ''ffmpeg exited with code 1: Invalid data found'')"
    by code_simp
  note inst = failure_carries_message_only [of bench_failing "[1, 2, 3]" an0 "[]" "[]" "''t''" w0 _ _
      "[1, 2]"]
  from inst [THEN conjunct1, rule_format, OF pair_fstI [OF g]]
    inst [THEN conjunct2, THEN conjunct1, rule_format, OF pair_fstI [OF t]] g
  show ?thesis by simp
qed

text \<open>
  Claim C9. For every thumbnail buffer, title and effects argument,
  \<open>generateEnhancedThumbnail\<close> resolves with a successful result whose buffer is the
  buffer it was given, byte for byte, and it changes no file: the overlay stage is a
  passthrough that cannot corrupt the base image.
\<close>

theorem generateEnhancedThumbnail_passthrough:
  "generateEnhancedThumbnail thumbnailBuffer title effects w =
     (Resolved \<lparr>success = True, payload = Some thumbnailBuffer, error = None\<rparr>, w)"
  by (simp add: generateEnhancedThumbnail_def try_catch_def io_return_def)

text \<open>
  Claim C10, as stated: for every input each function returns an object. The frame
  grabber is awaited with no timeout: when it never exits, \<open>createThumbnail\<close> never
  returns.
\<close>

theorem stalled_grabber_never_returns:
  "fst (createThumbnail bench_stalled [1, 2] w0) = Pending"
  by code_simp

text \<open>
  Claim C10, amended. \<open>generateVideo\<close>, \<open>createThumbnail\<close> and
  \<open>generateEnhancedThumbnail\<close> never reject: an error thrown inside is caught and
  returned as a value. Every object they return has a payload and no error, or an error
  message and no payload. \<open>generateEnhancedThumbnail\<close> always returns; \<open>generateVideo\<close>
  and \<open>createThumbnail\<close> return whenever no collaborator stays pending.
\<close>

theorem never_rejects:
  "fst (generateVideo e audioBuffer audioAnalysis imageFiles effects title w) \<noteq> Rejected x \<and>
   fst (createThumbnail e videoBuffer w) \<noteq> Rejected x \<and>
   fst (generateEnhancedThumbnail thumbnailBuffer title effects w) \<noteq> Rejected x \<and>
   (generateVideo e audioBuffer audioAnalysis imageFiles effects title w = (Resolved r, w') \<longrightarrow>
      well_formed r) \<and>
   (createThumbnail e videoBuffer w = (Resolved r, w') \<longrightarrow> well_formed r) \<and>
   (\<exists>r w'. generateEnhancedThumbnail thumbnailBuffer title effects w = (Resolved r, w')
      \<and> well_formed r) \<and>
   (settles e \<longrightarrow>
      (\<exists>r w'. generateVideo e audioBuffer audioAnalysis imageFiles effects title w = (Resolved r, w')
          \<and> well_formed r) \<and>
      (\<exists>r w'. createThumbnail e videoBuffer w = (Resolved r, w') \<and> well_formed r))"
  unfolding generateVideo_def createThumbnail_def generateEnhancedThumbnail_def
  by (intro conjI impI try_catch_not_Rejected try_catch_returns try_catch_well_formed
      generateVideo_try_settles createThumbnail_try_settles prim_settle)

text \<open>
  The bench settles, and \<open>generateVideo\<close> on a refused configuration still resolves
  with a well-formed object.
\<close>

theorem never_rejects_witness:
  "settles bench \<and>
   (\<exists>r w'. generateVideo bench [1, 2, 3] an0 [] [(''nonexistent_effect'', True)] ''t'' w0 =
       (Resolved r, w') \<and> well_formed r)"
  using never_rejects [where e = bench and audioBuffer = "[1, 2, 3]" and w = w0
      and audioAnalysis = an0 and imageFiles = "[]"
      and effects = "[(''nonexistent_effect'', True)]" and title = "''t''"] bench_settles
  by blast

end
